theory Spec2Isabelle
  imports Main "HOL-Library.Multiset"
begin

section \<open>Site constants (src/consts.ts)\<close>

record Site =
  NAME :: string
  EMAIL :: string
  NUM_POSTS_ON_HOMEPAGE :: int
  NUM_WORKS_ON_HOMEPAGE :: int
  NUM_PROJECTS_ON_HOMEPAGE :: int

definition SITE :: Site where
  "SITE = \<lparr> NAME = ''Gabriel Melo'',
            EMAIL = ''gabrielpresb@gmail.com'',
            NUM_POSTS_ON_HOMEPAGE = 3,
            NUM_WORKS_ON_HOMEPAGE = 2,
            NUM_PROJECTS_ON_HOMEPAGE = 3 \<rparr>"

section \<open>Blog entries\<close>

text \<open>
  The frontmatter of a post, as \<^verbatim>\<open>post.data\<close> exposes it to the homepage. The
  \<^verbatim>\<open>date\<close> is a valid JavaScript Date, read through \<^verbatim>\<open>valueOf()\<close>: an integral
  number of milliseconds since the epoch. The \<^verbatim>\<open>draft\<close> field may be absent
  (\<^verbatim>\<open>undefined\<close>), which is \<open>None\<close> here.
\<close>

record blog_data =
  title :: string
  description :: string
  date :: int
  draft :: "bool option"

record blog_entry =
  ident :: string
  slug :: string
  body :: string
  data :: blog_data

section \<open>The JavaScript array operations the homepage uses\<close>

text \<open>\<^verbatim>\<open>ToBoolean\<close> on a value that is a boolean or \<^verbatim>\<open>undefined\<close>.\<close>

fun ToBoolean :: "bool option \<Rightarrow> bool" where
  "ToBoolean None = False"
| "ToBoolean (Some b) = b"

text \<open>
  \<^verbatim>\<open>Array.prototype.sort(cmp)\<close>: a stable comparison sort. An element \<open>x\<close> is
  placed after every \<open>y\<close> with \<open>cmp x y > 0\<close> and before the first \<open>y\<close> with
  \<open>cmp x y \<le> 0\<close>; elements are inserted from the back of the array, so an element
  stays in front of the later elements it compares equal to.
\<close>

fun insert_cmp :: "('a \<Rightarrow> 'a \<Rightarrow> int) \<Rightarrow> 'a \<Rightarrow> 'a list \<Rightarrow> 'a list" where
  "insert_cmp cmp x [] = [x]"
| "insert_cmp cmp x (y # ys) =
     (if cmp x y \<le> 0 then x # y # ys else y # insert_cmp cmp x ys)"

definition sort_cmp :: "('a \<Rightarrow> 'a \<Rightarrow> int) \<Rightarrow> 'a list \<Rightarrow> 'a list" where
  "sort_cmp cmp xs = foldr (insert_cmp cmp) xs []"

text \<open>
  \<^verbatim>\<open>Array.prototype.slice(start, end)\<close> on integral arguments: a negative index
  counts from the end, both indices are clamped to the array, and an empty range gives
  an empty array.
\<close>

definition slice :: "int \<Rightarrow> int \<Rightarrow> 'a list \<Rightarrow> 'a list" where
  "slice start stop xs =
     (let len = int (length xs);
          k = (if start < 0 then max (len + start) 0 else min start len);
          final = (if stop < 0 then max (len + stop) 0 else min stop len)
      in take (nat (final - k)) (drop (nat k) xs))"

section \<open>The homepage listing (src/pages/index.astro)\<close>

text \<open>The filter callback \<^verbatim>\<open>(post) => !post.data.draft\<close>.\<close>

definition notDraft :: "blog_entry \<Rightarrow> bool" where
  "notDraft post = (\<not> ToBoolean (draft (data post)))"

text \<open>
  The sort callback \<^verbatim>\<open>(a, b) => b.data.date.valueOf() - a.data.date.valueOf()\<close>.
  The difference of two time values is computed on doubles and may round, but it keeps
  its sign and is zero only for equal time values, which is all the sort reads of it.
\<close>

definition byDateDesc :: "blog_entry \<Rightarrow> blog_entry \<Rightarrow> int" where
  "byDateDesc a b = date (data b) - date (data a)"

text \<open>The listing \<^verbatim>\<open>blog\<close>, as a function of the array \<^verbatim>\<open>getCollection("blog")\<close> returned.\<close>

definition blog :: "blog_entry list \<Rightarrow> blog_entry list" where
  "blog coll =
     slice 0 (NUM_POSTS_ON_HOMEPAGE SITE) (sort_cmp byDateDesc (filter notDraft coll))"

section \<open>The same pipeline on a store of array objects\<close>

text \<open>
  Arrays are objects: \<^verbatim>\<open>filter\<close> and \<^verbatim>\<open>slice\<close> allocate a new array, \<^verbatim>\<open>sort\<close>
  reorders its receiver in place and returns that same receiver. The store is the list
  of the arrays allocated so far, an address is an index into it. A call on an address
  that is not allocated gives \<open>None\<close>.
\<close>

type_synonym addr = nat
type_synonym store = "blog_entry list list"

definition alloc :: "blog_entry list \<Rightarrow> store \<Rightarrow> addr \<times> store" where
  "alloc xs h = (length h, h @ [xs])"

definition Array_filter :: "(blog_entry \<Rightarrow> bool) \<Rightarrow> addr \<Rightarrow> store \<Rightarrow> (addr \<times> store) option" where
  "Array_filter p a h = (if a < length h then Some (alloc (filter p (h ! a)) h) else None)"

definition Array_sort ::
  "(blog_entry \<Rightarrow> blog_entry \<Rightarrow> int) \<Rightarrow> addr \<Rightarrow> store \<Rightarrow> (addr \<times> store) option" where
  "Array_sort cmp a h = (if a < length h then Some (a, h[a := sort_cmp cmp (h ! a)]) else None)"

definition Array_slice :: "int \<Rightarrow> int \<Rightarrow> addr \<Rightarrow> store \<Rightarrow> (addr \<times> store) option" where
  "Array_slice start stop a h =
     (if a < length h then Some (alloc (slice start stop (h ! a)) h) else None)"

definition blog_run :: "addr \<Rightarrow> store \<Rightarrow> (addr \<times> store) option" where
  "blog_run c h =
     (case Array_filter notDraft c h of
        None \<Rightarrow> None
      | Some (a1, h1) \<Rightarrow>
          (case Array_sort byDateDesc a1 h1 of
             None \<Rightarrow> None
           | Some (a2, h2) \<Rightarrow> Array_slice 0 (NUM_POSTS_ON_HOMEPAGE SITE) a2 h2))"

section \<open>Test data\<close>

definition msPerDay :: int where
  "msPerDay = 86400000"

definition mkPost :: "string \<Rightarrow> int \<Rightarrow> bool option \<Rightarrow> blog_entry" where
  "mkPost s d dr =
     \<lparr> ident = s, slug = s, body = [],
       data = \<lparr> title = s, description = [], date = d, draft = dr \<rparr> \<rparr>"

text \<open>A published post without a \<^verbatim>\<open>draft\<close> field, dated day \<open>k\<close> of January 2024 (UTC).\<close>

definition janPost :: "string \<Rightarrow> int \<Rightarrow> blog_entry" where
  "janPost s k = mkPost s (1704067200000 + (k - 1) * msPerDay) None"

text \<open>A post marked \<^verbatim>\<open>draft: true\<close>, dated January 5, 2024.\<close>

definition wipPost :: blog_entry where
  "wipPost = mkPost ''wip'' 1704412800000 (Some True)"

section \<open>Properties of the array operations\<close>

lemma insert_cmp_byDateDesc:
  "insert_cmp byDateDesc x ys = insort_key (\<lambda>e. - date (data e)) x ys"
  by (induction ys) (simp_all add: byDateDesc_def)

lemma sort_cmp_byDateDesc:
  "sort_cmp byDateDesc xs = sort_key (\<lambda>e. - date (data e)) xs"
  by (induction xs) (simp_all add: sort_cmp_def insert_cmp_byDateDesc)

lemma slice_0_nonneg:
  "0 \<le> n \<Longrightarrow> slice 0 n xs = take (nat n) xs"
  by (simp add: slice_def Let_def min_def)

lemma blog_eq:
  "blog coll = take 3 (sort_key (\<lambda>e. - date (data e)) (filter notDraft coll))"
  by (simp add: blog_def SITE_def slice_0_nonneg sort_cmp_byDateDesc)

lemma set_blog_subset: "set (blog coll) \<subseteq> {e \<in> set coll. notDraft e}"
  by (auto simp: blog_eq dest: in_set_takeD)

lemma filter_singleton_mset:
  "filter_mset P (mset xs) = {#a#} \<Longrightarrow> filter P xs = [a]"
  by (metis mset_filter mset_single_iff_right)

lemma blog_run_eq:
  assumes "c < length h"
  shows "blog_run c h =
    Some (Suc (length h), h @ [sort_cmp byDateDesc (filter notDraft (h ! c)), blog (h ! c)])"
  using assms
  by (simp add: blog_run_def Array_filter_def Array_sort_def Array_slice_def alloc_def
      blog_def nth_append)

section \<open>The homepage listing, end to end\<close>

text \<open>
  Claim C1. A collection that holds exactly five non-draft entries dated January 1 to
  January 5 (one per day, \<open>jan1\<close> being January 1 in milliseconds), in whatever load
  order, gives with \<^verbatim>\<open>NUM_POSTS_ON_HOMEPAGE = 3\<close> the listing of the entries of
  January 5, January 4 and January 3, in that order.
\<close>

theorem homepage_jan_1_to_5:
  assumes coll: "mset coll = {#e1, e2, e3, e4, e5#}"
    and nd: "notDraft e1" "notDraft e2" "notDraft e3" "notDraft e4" "notDraft e5"
    and d: "date (data e1) = jan1"
      "date (data e2) = jan1 + msPerDay"
      "date (data e3) = jan1 + 2 * msPerDay"
      "date (data e4) = jan1 + 3 * msPerDay"
      "date (data e5) = jan1 + 4 * msPerDay"
  shows "blog coll = [e5, e4, e3]"
proof -
  let ?f = "\<lambda>e. - date (data e)"
  have s: "set coll = {e1, e2, e3, e4, e5}"
    using coll by (metis set_mset_mset set_mset_add_mset_insert set_mset_empty)
  have keep: "filter notDraft coll = coll"
    using nd s by (auto intro: filter_True)
  have "sort_key ?f coll = [e5, e4, e3, e2, e1]"
  proof (rule properties_for_sort_key)
    show "mset [e5, e4, e3, e2, e1] = mset coll"
      using coll by simp
    show "sorted (map ?f [e5, e4, e3, e2, e1])"
      by (simp add: d msPerDay_def)
    fix k assume "k \<in> set [e5, e4, e3, e2, e1]"
    then consider "k = e1" | "k = e2" | "k = e3" | "k = e4" | "k = e5" by auto
    then show "filter (\<lambda>x. ?f k = ?f x) [e5, e4, e3, e2, e1] = filter (\<lambda>x. ?f k = ?f x) coll"
    proof cases
      case 1
      have "filter (\<lambda>x. ?f k = ?f x) coll = [e1]"
        by (rule filter_singleton_mset) (simp add: coll 1 d msPerDay_def)
      then show ?thesis by (simp add: 1 d msPerDay_def)
    next
      case 2
      have "filter (\<lambda>x. ?f k = ?f x) coll = [e2]"
        by (rule filter_singleton_mset) (simp add: coll 2 d msPerDay_def)
      then show ?thesis by (simp add: 2 d msPerDay_def)
    next
      case 3
      have "filter (\<lambda>x. ?f k = ?f x) coll = [e3]"
        by (rule filter_singleton_mset) (simp add: coll 3 d msPerDay_def)
      then show ?thesis by (simp add: 3 d msPerDay_def)
    next
      case 4
      have "filter (\<lambda>x. ?f k = ?f x) coll = [e4]"
        by (rule filter_singleton_mset) (simp add: coll 4 d msPerDay_def)
      then show ?thesis by (simp add: 4 d msPerDay_def)
    next
      case 5
      have "filter (\<lambda>x. ?f k = ?f x) coll = [e5]"
        by (rule filter_singleton_mset) (simp add: coll 5 d msPerDay_def)
      then show ?thesis by (simp add: 5 d msPerDay_def)
    qed
  qed
  then show ?thesis
    by (simp add: blog_eq keep)
qed

theorem homepage_jan_1_to_5_witness:
  "blog [janPost ''c'' 3, janPost ''a'' 1, janPost ''e'' 5, janPost ''b'' 2, janPost ''d'' 4]
     = [janPost ''e'' 5, janPost ''d'' 4, janPost ''c'' 3]"
  by (rule homepage_jan_1_to_5 [of _ "janPost ''a'' 1" "janPost ''b'' 2" _ _ _ 1704067200000])
    (simp_all add: janPost_def mkPost_def msPerDay_def notDraft_def)

section \<open>Sorting\<close>

text \<open>
  Claim C2. The sort of the listing is stable: for every date \<open>d\<close>, the entries dated
  \<open>d\<close> stand in the sorted view in the order they had before the sort, and the sorted
  view holds the same entries as the view it was given. The sorted view is a function of
  the view alone.
\<close>

theorem sort_stable:
  "filter (\<lambda>e. date (data e) = d) (sort_cmp byDateDesc view)
     = filter (\<lambda>e. date (data e) = d) view \<and>
   mset (sort_cmp byDateDesc view) = mset view"
  using sort_key_stable [of "\<lambda>e. - date (data e)" "- d" view]
  by (simp add: sort_cmp_byDateDesc)

section \<open>Drafts\<close>

text \<open>
  Claim C3. An entry whose metadata has \<^verbatim>\<open>draft: true\<close> is in no homepage listing,
  whatever the collection.
\<close>

theorem draft_never_listed:
  "draft (data post) = Some True \<Longrightarrow> post \<notin> set (blog coll)"
  using set_blog_subset [of coll] by (auto simp: notDraft_def)

theorem draft_never_listed_witness:
  "draft (data wipPost) = Some True \<and>
   wipPost \<in> set [janPost ''a'' 1, wipPost] \<and>
   wipPost \<notin> set (blog [janPost ''a'' 1, wipPost])"
  using draft_never_listed [of wipPost "[janPost ''a'' 1, wipPost]"]
  by (simp add: wipPost_def mkPost_def)

text \<open>
  Claim C9. An entry without a \<^verbatim>\<open>draft\<close> field passes the default filter: it is in
  the filtered and sorted view of every collection it belongs to, and in the homepage
  listing when the non-draft entries are at most \<^verbatim>\<open>NUM_POSTS_ON_HOMEPAGE\<close>.
\<close>

theorem missing_draft_is_listed:
  "draft (data post) = None \<Longrightarrow> post \<in> set coll \<Longrightarrow>
     notDraft post \<and>
     post \<in> set (sort_cmp byDateDesc (filter notDraft coll)) \<and>
     (int (length (filter notDraft coll)) \<le> NUM_POSTS_ON_HOMEPAGE SITE
        \<longrightarrow> post \<in> set (blog coll))"
  by (simp add: notDraft_def blog_eq sort_cmp_byDateDesc SITE_def)

theorem missing_draft_is_listed_witness:
  "draft (data (janPost ''a'' 1)) = None \<and>
   janPost ''a'' 1 \<in> set [wipPost, janPost ''a'' 1] \<and>
   int (length (filter notDraft [wipPost, janPost ''a'' 1])) \<le> NUM_POSTS_ON_HOMEPAGE SITE \<and>
   janPost ''a'' 1 \<in> set (blog [wipPost, janPost ''a'' 1])"
  using missing_draft_is_listed [of "janPost ''a'' 1" "[wipPost, janPost ''a'' 1]"]
  by (simp add: janPost_def wipPost_def mkPost_def notDraft_def SITE_def)

section \<open>The window\<close>

text \<open>
  Claim C4. \<^verbatim>\<open>slice(0, n)\<close> with \<open>n\<close> greater than the length of the view returns the
  whole view; with \<open>0 \<le> n\<close> and \<open>n\<close> at most the length it returns the first \<open>n\<close>
  entries, and exactly \<open>n\<close> of them.
\<close>

theorem slice_window:
  "(int (length xs) < n \<longrightarrow> slice 0 n xs = xs) \<and>
   (0 \<le> n \<and> n \<le> int (length xs) \<longrightarrow>
      slice 0 n xs = take (nat n) xs \<and> length (slice 0 n xs) = nat n)"
  by (auto simp: slice_def Let_def min_def)

theorem slice_window_witness:
  "int (length [janPost ''a'' 1, janPost ''b'' 2]) < 3 \<and>
   slice 0 3 [janPost ''a'' 1, janPost ''b'' 2] = [janPost ''a'' 1, janPost ''b'' 2] \<and>
   (0::int) \<le> 1 \<and> 1 \<le> int (length [janPost ''a'' 1, janPost ''b'' 2]) \<and>
   slice 0 1 [janPost ''a'' 1, janPost ''b'' 2] = [janPost ''a'' 1]"
  using slice_window [of "[janPost ''a'' 1, janPost ''b'' 2]" 3]
    slice_window [of "[janPost ''a'' 1, janPost ''b'' 2]" 1]
  by simp

section \<open>The listing as a selection from the collection\<close>

text \<open>
  Claim C10. Every entry of the homepage listing is an entry of the collection, the
  listing holds no entry more often than the collection does (so no entry twice when the
  entries of the collection are distinct), and it has at most
  \<^verbatim>\<open>NUM_POSTS_ON_HOMEPAGE\<close> entries.
\<close>

theorem listing_is_selection:
  "set (blog coll) \<subseteq> set coll \<and>
   mset (blog coll) \<subseteq># mset coll \<and>
   (distinct coll \<longrightarrow> distinct (blog coll)) \<and>
   int (length (blog coll)) \<le> NUM_POSTS_ON_HOMEPAGE SITE \<and>
   NUM_POSTS_ON_HOMEPAGE SITE = 3"
proof -
  let ?s = "sort_key (\<lambda>e. - date (data e)) (filter notDraft coll)"
  have "mset (take 3 ?s) \<subseteq># mset ?s"
    by (metis append_take_drop_id mset_append mset_subset_eq_add_left)
  moreover have "mset ?s \<subseteq># mset coll"
    by (simp add: multiset_filter_subset)
  ultimately have "mset (blog coll) \<subseteq># mset coll"
    unfolding blog_eq by (rule subset_mset.order_trans)
  moreover have "set (blog coll) \<subseteq> set coll"
    using set_blog_subset [of coll] by auto
  ultimately show ?thesis
    by (simp add: blog_eq SITE_def)
qed

theorem listing_is_selection_witness:
  "distinct [janPost ''a'' 1, wipPost, janPost ''b'' 2, janPost ''c'' 3, janPost ''d'' 4] \<and>
   distinct (blog [janPost ''a'' 1, wipPost, janPost ''b'' 2, janPost ''c'' 3, janPost ''d'' 4]) \<and>
   length (blog [janPost ''a'' 1, wipPost, janPost ''b'' 2, janPost ''c'' 3, janPost ''d'' 4]) = 3"
  using listing_is_selection
    [of "[janPost ''a'' 1, wipPost, janPost ''b'' 2, janPost ''c'' 3, janPost ''d'' 4]"]
  by (simp add: blog_eq janPost_def wipPost_def mkPost_def msPerDay_def notDraft_def)

section \<open>The collection array is left alone\<close>

text \<open>
  Claim C5, amended. Running the homepage pipeline on the collection array at address
  \<open>c\<close> changes no array that existed before, the collection array among them, so the
  entries \<^verbatim>\<open>getCollection\<close> returned keep their content and order. The filter step
  and the slice step each return a newly allocated array. The sort step does not: it
  reorders the array the filter step allocated, in place, allocates nothing and returns
  that same array. None of the three results is the collection array, and the listing
  holds \<open>blog\<close> of the collection.
\<close>

theorem pipeline_leaves_collection:
  assumes "c < length h"
  shows "\<exists>a1 h1 h2 a3 h3.
     Array_filter notDraft c h = Some (a1, h1) \<and>
     Array_sort byDateDesc a1 h1 = Some (a1, h2) \<and>
     Array_slice 0 (NUM_POSTS_ON_HOMEPAGE SITE) a1 h2 = Some (a3, h3) \<and>
     blog_run c h = Some (a3, h3) \<and>
     a1 \<noteq> c \<and> a3 \<noteq> c \<and> a3 \<noteq> a1 \<and>
     length h \<le> a1 \<and> length h2 \<le> a3 \<and>
     h1 ! c = h ! c \<and> h2 ! c = h ! c \<and> h3 ! c = h ! c \<and>
     take (length h) h3 = h \<and>
     h3 ! a3 = blog (h ! c) \<and>
     h1 ! a1 = filter notDraft (h ! c) \<and>
     length h2 = length h1 \<and>
     h2 ! a1 = sort_cmp byDateDesc (filter notDraft (h ! c)) \<and>
     h3 ! a1 = sort_cmp byDateDesc (filter notDraft (h ! c))"
  using assms
  by (simp add: blog_run_def Array_filter_def Array_sort_def Array_slice_def alloc_def
      blog_def nth_append)

theorem pipeline_leaves_collection_witness:
  "(0::nat) < length [[janPost ''a'' 1, wipPost, janPost ''b'' 2]] \<and>
   (\<exists>a g. blog_run 0 [[janPost ''a'' 1, wipPost, janPost ''b'' 2]] = Some (a, g) \<and>
      a \<noteq> 0 \<and>
      g ! 0 = [janPost ''a'' 1, wipPost, janPost ''b'' 2] \<and>
      g ! a = [janPost ''b'' 2, janPost ''a'' 1])"
  using pipeline_leaves_collection [of 0 "[[janPost ''a'' 1, wipPost, janPost ''b'' 2]]"]
  by (auto simp: blog_eq janPost_def wipPost_def mkPost_def msPerDay_def notDraft_def)

text \<open>
  The specification has every query step return a new view. On the collection
  \<open>[Jan 1, draft, Jan 2]\<close> the filter step allocates the array at address 1, holding
  \<open>[Jan 1, Jan 2]\<close>; the sort step returns address 1 again, the array it was called
  on, which now holds \<open>[Jan 2, Jan 1]\<close>: the view the filter step returned is gone.
\<close>

theorem sort_step_returns_receiver:
  "Array_filter notDraft 0 [[janPost ''a'' 1, wipPost, janPost ''b'' 2]]
     = Some (1, [[janPost ''a'' 1, wipPost, janPost ''b'' 2],
                 [janPost ''a'' 1, janPost ''b'' 2]]) \<and>
   Array_sort byDateDesc 1 [[janPost ''a'' 1, wipPost, janPost ''b'' 2],
                            [janPost ''a'' 1, janPost ''b'' 2]]
     = Some (1, [[janPost ''a'' 1, wipPost, janPost ''b'' 2],
                 [janPost ''b'' 2, janPost ''a'' 1]]) \<and>
   [janPost ''b'' 2, janPost ''a'' 1] \<noteq> [janPost ''a'' 1, janPost ''b'' 2]"
  by (simp add: Array_filter_def Array_sort_def alloc_def sort_cmp_def byDateDesc_def
      notDraft_def janPost_def wipPost_def mkPost_def msPerDay_def)

section \<open>Determinism\<close>

text \<open>
  Claim C8. Two runs of the homepage pipeline on collection arrays with the same entries
  in the same order give listings with the same entries in the same order, whatever else
  the two stores hold and wherever the arrays are allocated.
\<close>

theorem pipeline_deterministic:
  assumes "c < length h" and "c' < length h'" and "h ! c = h' ! c'"
  shows "\<exists>a g a' g'.
     blog_run c h = Some (a, g) \<and> blog_run c' h' = Some (a', g') \<and>
     g ! a = g' ! a' \<and> g ! a = blog (h ! c)"
  using assms by (simp add: blog_run_eq nth_append)

theorem pipeline_deterministic_witness:
  "(0::nat) < length [[janPost ''a'' 1, janPost ''b'' 2]] \<and>
   (1::nat) < length [[wipPost], [janPost ''a'' 1, janPost ''b'' 2]] \<and>
   [[janPost ''a'' 1, janPost ''b'' 2]] ! 0
     = [[wipPost], [janPost ''a'' 1, janPost ''b'' 2]] ! 1 \<and>
   (\<exists>a g a' g'.
      blog_run 0 [[janPost ''a'' 1, janPost ''b'' 2]] = Some (a, g) \<and>
      blog_run 1 [[wipPost], [janPost ''a'' 1, janPost ''b'' 2]] = Some (a', g') \<and>
      a \<noteq> a' \<and> g ! a = g' ! a')"
  using pipeline_deterministic [of 0 "[[janPost ''a'' 1, janPost ''b'' 2]]"
      1 "[[wipPost], [janPost ''a'' 1, janPost ''b'' 2]]"]
  by (auto simp: blog_run_eq)

end
